theory Spec2Isabelle
  imports Complex_Main "HOL-Library.Char_ord" "HOL-Library.List_Lexorder" "HOL-Library.Multiset"
begin

section \<open>JavaScript values\<close>

text \<open>
  The tracker (\<^verbatim>\<open>src/App.jsx\<close>) reads and writes untyped records: Firestore documents,
  form data and Jikan search results. Their field values are modelled as the primitive
  JavaScript values; stored documents that hold maps have a section of their own below.
  Numbers are \<open>NaN\<close> or a finite number, held exactly as a rational:
  the rounding of doubles and the two infinities are not modelled. A string is the list
  of its code units, each below 256; \<open>length\<close> counts code units as \<^verbatim>\<open>.length\<close> does.
\<close>

datatype jsnum = NaN | Fin rat

datatype jsval = JUndefined | JNull | JBool bool | JNum jsnum | JStr string

text \<open>An object is a finite map from property names to values.\<close>

type_synonym obj = "string \<rightharpoonup> jsval"

text \<open>\<^verbatim>\<open>o.k\<close>: reading a property that is absent gives \<^verbatim>\<open>undefined\<close>.\<close>

definition get_prop :: "obj \<Rightarrow> string \<Rightarrow> jsval" where
  "get_prop ob k = (case ob k of None \<Rightarrow> JUndefined | Some v \<Rightarrow> v)"

text \<open>ToBoolean: the falsy values are \<^verbatim>\<open>undefined, null, false, NaN, 0, ""\<close>.\<close>

fun truthy :: "jsval \<Rightarrow> bool" where
  "truthy JUndefined = False"
| "truthy JNull = False"
| "truthy (JBool b) = b"
| "truthy (JNum NaN) = False"
| "truthy (JNum (Fin r)) = (r \<noteq> 0)"
| "truthy (JStr s) = (s \<noteq> [])"

text \<open>\<^verbatim>\<open>a || b\<close>.\<close>

definition js_or :: "jsval \<Rightarrow> jsval \<Rightarrow> jsval" where
  "js_or a b = (if truthy a then a else b)"

text \<open>\<^verbatim>\<open>a === b\<close> on primitives: same type and same value, and \<open>NaN\<close> equals nothing.\<close>

definition strict_eq :: "jsval \<Rightarrow> jsval \<Rightarrow> bool" where
  "strict_eq a b = (a = b \<and> a \<noteq> JNum NaN)"

text \<open>
  \<^verbatim>\<open>Number(v)\<close>. The conversion of a string to a number is a built-in of the language
  (it parses numeric literals into doubles); it is a parameter of the model, and every
  theorem below holds for each such conversion.
\<close>

type_synonym str2num = "string \<Rightarrow> jsnum"

fun ToNumber :: "str2num \<Rightarrow> jsval \<Rightarrow> jsnum" where
  "ToNumber S JUndefined = NaN"
| "ToNumber S JNull = Fin 0"
| "ToNumber S (JBool b) = Fin (if b then 1 else 0)"
| "ToNumber S (JNum n) = n"
| "ToNumber S (JStr s) = S s"

text \<open>
  \<^verbatim>\<open>n || 0\<close> for a number \<open>n\<close>. \<open>NaN\<close> and \<open>0\<close> are falsy, so the result is always a
  finite number; it is returned as such.
\<close>

definition num_or_zero :: "jsnum \<Rightarrow> rat" where
  "num_or_zero n =
     (case js_or (JNum n) (JNum (Fin 0)) of
        JNum (Fin r) \<Rightarrow> r
      | _ \<Rightarrow> 0)"

text \<open>\<^verbatim>\<open>Number(v) || 0\<close>, the coercion used for every numeric field.\<close>

definition number_or_zero :: "str2num \<Rightarrow> jsval \<Rightarrow> rat" where
  "number_or_zero S v = num_or_zero (ToNumber S v)"

subsection \<open>Strings\<close>

text \<open>
  The white space that \<^verbatim>\<open>trim\<close> removes, among the code units below 256: tab, line feed,
  vertical tab, form feed, carriage return, space and no-break space.
\<close>

definition isWhiteSpace :: "char \<Rightarrow> bool" where
  "isWhiteSpace c = ((of_char c :: nat) \<in> {9, 10, 11, 12, 13, 32, 160})"

definition trim :: "string \<Rightarrow> string" where
  "trim s = rev (dropWhile isWhiteSpace (rev (dropWhile isWhiteSpace s)))"

text \<open>
  \<^verbatim>\<open>toLowerCase\<close> on code units below 256: the letters A to Z and the accented capitals
  U+00C0 to U+00DE (without the multiplication sign U+00D7) move up by 32, which sets
  the bit of weight 32; every other code unit stays.
\<close>

definition isUpper :: "char \<Rightarrow> bool" where
  "isUpper c =
     (let n = (of_char c :: nat)
      in (65 \<le> n \<and> n \<le> 90) \<or> (192 \<le> n \<and> n \<le> 222 \<and> n \<noteq> 215))"

definition lower_char :: "char \<Rightarrow> char" where
  "lower_char c =
     (if isUpper c
      then (case c of Char b0 b1 b2 b3 b4 b5 b6 b7 \<Rightarrow> Char b0 b1 b2 b3 b4 True b6 b7)
      else c)"

definition toLowerCase :: "string \<Rightarrow> string" where
  "toLowerCase s = map lower_char s"

text \<open>
  A string conversion for the closed examples: optional white space around an optionally
  signed run of decimal digits, the empty string being \<open>0\<close>. On these strings, and on
  strings without a digit (which give \<open>NaN\<close>), it agrees with \<^verbatim>\<open>Number\<close>; the examples
  use no other string.
\<close>

definition digit_val :: "char \<Rightarrow> nat option" where
  "digit_val c =
     (let n = (of_char c :: nat) in if 48 \<le> n \<and> n \<le> 57 then Some (n - 48) else None)"

fun digits_val :: "nat \<Rightarrow> string \<Rightarrow> nat option" where
  "digits_val acc [] = Some acc"
| "digits_val acc (c # cs) =
     (case digit_val c of None \<Rightarrow> None | Some d \<Rightarrow> digits_val (10 * acc + d) cs)"

definition unsigned_digits :: "string \<Rightarrow> jsnum" where
  "unsigned_digits s =
     (if s = [] then NaN
      else (case digits_val 0 s of None \<Rightarrow> NaN | Some n \<Rightarrow> Fin (of_nat n)))"

definition decimal_digits :: str2num where
  "decimal_digits s =
     (case trim s of
        [] \<Rightarrow> Fin 0
      | c # cs \<Rightarrow>
          if c = CHR ''-''
          then (case unsigned_digits cs of NaN \<Rightarrow> NaN | Fin r \<Rightarrow> Fin (- r))
          else if c = CHR ''+'' then unsigned_digits cs
          else unsigned_digits (c # cs))"

section \<open>Tracked items\<close>

text \<open>The four values of the \<^verbatim>\<open>Status\<close> table.\<close>

definition READING :: jsval where
  "READING = JStr ''Reading''"

definition PLAN_TO_READ :: jsval where
  "PLAN_TO_READ = JStr ''Plan to Read''"

definition COMPLETED :: jsval where
  "COMPLETED = JStr ''Completed''"

definition DROPPED :: jsval where
  "DROPPED = JStr ''Dropped''"

text \<open>
  An element of the \<^verbatim>\<open>items\<close> state. Every element is built by the snapshot callback as
  \<^verbatim>\<open>{id: doc.id, ...doc.data(), currentChapter: Number(..) || 0, totalChapters: Number(..) || 0,
    rating: Number(..) || 0, notes: .. || "", lastUpdated: .. || 0}\<close>,
  so three properties are always finite numbers and are typed so; \<open>other\<close> holds the
  properties that come from \<^verbatim>\<open>id\<close> and the spread of the document (title, type, status,
  apiId, imageUrl and whatever else the document has).
\<close>

record item =
  other :: obj
  currentChapter :: rat
  totalChapters :: rat
  rating :: rat
  item_notes :: jsval
  lastUpdated :: jsval

text \<open>The item as an object: the five computed properties override the spread ones.\<close>

definition item_obj :: "item \<Rightarrow> obj" where
  "item_obj it =
     (other it)
       (''currentChapter'' \<mapsto> JNum (Fin (currentChapter it)),
        ''totalChapters'' \<mapsto> JNum (Fin (totalChapters it)),
        ''rating'' \<mapsto> JNum (Fin (rating it)),
        ''notes'' \<mapsto> item_notes it,
        ''lastUpdated'' \<mapsto> lastUpdated it)"

subsection \<open>The snapshot callback (lines 528 to 541)\<close>

text \<open>
  The item that the callback builds from a document of primitive values, as the app
  writes them. On such values \<^verbatim>\<open>Number\<close> cannot raise. The callback on documents that
  hold maps is \<open>snapshot_item\<close> below.
\<close>

definition normalize_doc :: "str2num \<Rightarrow> string \<Rightarrow> obj \<Rightarrow> item" where
  "normalize_doc S doc_id data =
     \<lparr> other = [''id'' \<mapsto> JStr doc_id] ++ data,
       currentChapter = number_or_zero S (get_prop data ''currentChapter''),
       totalChapters = number_or_zero S (get_prop data ''totalChapters''),
       rating = number_or_zero S (get_prop data ''rating''),
       item_notes = js_or (get_prop data ''notes'') (JStr ''''),
       lastUpdated = js_or (get_prop data ''lastUpdated'') (JNum (Fin 0)) \<rparr>"

subsection \<open>handleUpdateChapter (lines 590 to 618)\<close>

text \<open>
  The record that the handler writes for \<^verbatim>\<open>item\<close> and \<^verbatim>\<open>delta\<close>; \<open>now\<close> is the value of
  \<^verbatim>\<open>Date.now()\<close>. \<^verbatim>\<open>delta\<close> is a finite number (the card passes 1 and -1).
  \<^verbatim>\<open>item.totalChapters\<close> is a number, and \<^verbatim>\<open>Number\<close> of a number is that number.
\<close>

definition advance :: "item \<Rightarrow> rat \<Rightarrow> rat \<Rightarrow> obj" where
  "advance it delta now =
     (let newChapter = max 0 (currentChapter it + delta);
          status = get_prop (item_obj it) ''status'';
          total = num_or_zero (Fin (totalChapters it));
          newStatus =
            (if newChapter > 0 \<and> strict_eq status PLAN_TO_READ then READING
             else if total > 0 \<and> newChapter \<ge> total then COMPLETED
             else if newChapter > 0 \<and> newChapter < total \<and> strict_eq status COMPLETED
               then READING
             else if newChapter = 0 \<and> strict_eq status READING then PLAN_TO_READ
             else status)
      in (item_obj it)
           (''currentChapter'' \<mapsto> JNum (Fin newChapter),
            ''status'' \<mapsto> newStatus,
            ''lastUpdated'' \<mapsto> JNum (Fin now)))"

text \<open>
  The handler returns at once while the database handle or the user id is missing;
  otherwise it writes the record (\<open>None\<close>: nothing is written).
\<close>

definition handleUpdateChapter :: "bool \<Rightarrow> string option \<Rightarrow> item \<Rightarrow> rat \<Rightarrow> rat \<Rightarrow> obj option" where
  "handleUpdateChapter db userId it delta now =
     (if \<not> db \<or> userId = None \<or> userId = Some [] then None
      else Some (advance it delta now))"

text \<open>
  The status rule of \<^verbatim>\<open>advance\<close> in the words of the specification (section 4.2): the
  current status, the item's \<^verbatim>\<open>totalChapters\<close> and the new chapter give the new status,
  first match wins.
\<close>

definition advance_status_spec :: "jsval \<Rightarrow> rat \<Rightarrow> rat \<Rightarrow> jsval" where
  "advance_status_spec status totalCh newChapter =
     (if newChapter > 0 \<and> status = PLAN_TO_READ then READING
      else if totalCh > 0 \<and> newChapter \<ge> totalCh then COMPLETED
      else if newChapter > 0 \<and> newChapter < totalCh \<and> status = COMPLETED then READING
      else if newChapter = 0 \<and> status = READING then PLAN_TO_READ
      else status)"

subsection \<open>handleSaveEdit (lines 638 to 673)\<close>

text \<open>
  The record that the handler writes when the edit form of \<^verbatim>\<open>isEditing\<close> is submitted
  with \<^verbatim>\<open>updatedData\<close>. The form starts as a copy of the item and holds the strings the
  user typed in the fields that were changed.
\<close>

definition applyEdit :: "str2num \<Rightarrow> item \<Rightarrow> obj \<Rightarrow> rat \<Rightarrow> obj" where
  "applyEdit S isEditing updatedData now =
     (let newCurrent = number_or_zero S (get_prop updatedData ''currentChapter'');
          newTotal = number_or_zero S (get_prop updatedData ''totalChapters'');
          newRating = number_or_zero S (get_prop updatedData ''rating'');
          status = get_prop updatedData ''status'';
          newStatus =
            (if strict_eq status PLAN_TO_READ \<and> newCurrent > 0 then READING
             else if newTotal > 0 \<and> newCurrent \<ge> newTotal then COMPLETED
             else status);
          itemToSave =
            (item_obj isEditing ++ updatedData)
              (''currentChapter'' \<mapsto> JNum (Fin newCurrent),
               ''totalChapters'' \<mapsto> JNum (Fin newTotal),
               ''rating'' \<mapsto> JNum (Fin newRating),
               ''status'' \<mapsto> newStatus,
               ''lastUpdated'' \<mapsto> JNum (Fin now))
      in itemToSave
           (''imageUrl'' \<mapsto>
              js_or (get_prop itemToSave ''imageUrl'')
                (js_or (get_prop (item_obj isEditing) ''imageUrl'') (JStr ''''))))"

definition handleSaveEdit ::
  "str2num \<Rightarrow> bool \<Rightarrow> string option \<Rightarrow> item option \<Rightarrow> obj \<Rightarrow> rat \<Rightarrow> obj option" where
  "handleSaveEdit S db userId isEditing updatedData now =
     (if \<not> db \<or> userId = None \<or> userId = Some [] then None
      else (case isEditing of
              None \<Rightarrow> None
            | Some it \<Rightarrow> Some (applyEdit S it updatedData now)))"

text \<open>
  The status rule of \<^verbatim>\<open>applyEdit\<close> in the words of the specification (section 4.2): the
  submitted status and the coerced chapter numbers give the stored status.
\<close>

definition applyEdit_status_spec :: "jsval \<Rightarrow> rat \<Rightarrow> rat \<Rightarrow> jsval" where
  "applyEdit_status_spec submitted current totalCh =
     (if submitted = PLAN_TO_READ \<and> current > 0 then READING
      else if totalCh > 0 \<and> current \<ge> totalCh then COMPLETED
      else submitted)"

subsection \<open>handleAddItem (lines 555 to 588)\<close>

text \<open>
  A search result of the catalog, with the properties the handler reads; \<open>image_url\<close>
  is the value of \<^verbatim>\<open>apiResult.images?.jpg?.image_url\<close>.
\<close>

record apiResult =
  mal_id :: jsval
  title :: jsval
  media_type :: jsval
  chapters :: jsval
  image_url :: jsval

definition isAlreadyTracked :: "item list \<Rightarrow> apiResult \<Rightarrow> bool" where
  "isAlreadyTracked items r =
     list_ex (\<lambda>it. strict_eq (get_prop (item_obj it) ''apiId'') (mal_id r)) items"

definition newItem :: "apiResult \<Rightarrow> rat \<Rightarrow> obj" where
  "newItem r now =
     [''apiId'' \<mapsto> mal_id r,
      ''title'' \<mapsto> title r,
      ''type'' \<mapsto> js_or (media_type r) (JStr ''Manga''),
      ''status'' \<mapsto> PLAN_TO_READ,
      ''currentChapter'' \<mapsto> JNum (Fin 0),
      ''totalChapters'' \<mapsto> js_or (chapters r) (JNum (Fin 0)),
      ''imageUrl'' \<mapsto> js_or (image_url r) (JStr ''''),
      ''rating'' \<mapsto> JNum (Fin 0),
      ''notes'' \<mapsto> JStr '''',
      ''lastUpdated'' \<mapsto> JNum (Fin now)]"

text \<open>The records that the handler creates: none, or the new item.\<close>

definition handleAddItem ::
  "bool \<Rightarrow> string option \<Rightarrow> item list \<Rightarrow> apiResult \<Rightarrow> rat \<Rightarrow> obj list" where
  "handleAddItem db userId items r now =
     (if \<not> db \<or> userId = None \<or> userId = Some [] then []
      else if isAlreadyTracked items r then []
      else [newItem r now])"

subsection \<open>handleSearch (lines 37 to 59)\<close>

text \<open>
  What submitting the search form does first: either it shows the validation message and
  returns, or it issues the request for the query.
\<close>

datatype search_step = ValidationError string | SearchRequest string

definition handleSearch :: "string \<Rightarrow> search_step" where
  "handleSearch query =
     (if length (trim query) < 3
      then ValidationError ''Please enter at least 3 characters to search.''
      else SearchRequest query)"

section \<open>Stored documents with map values\<close>

text \<open>
  A field of a stored document holds a primitive value or a map of further fields. The
  app itself writes primitive values only; a map can reach it from a document that was
  written elsewhere. Arrays and the value classes of the database client are not
  modelled. An exception is a result of its own.
\<close>

datatype error = TypeError

datatype stored = Prim jsval | StoredMap "(string \<times> stored) list"

type_synonym document = "string \<rightharpoonup> stored"

text \<open>\<^verbatim>\<open>doc.data().k\<close>.\<close>

definition doc_field :: "document \<Rightarrow> string \<Rightarrow> stored" where
  "doc_field d k = (case d k of None \<Rightarrow> Prim JUndefined | Some v \<Rightarrow> v)"

text \<open>
  \<^verbatim>\<open>Number(v)\<close> on a stored value. For a map the language first asks for a primitive:
  \<^verbatim>\<open>valueOf\<close> gives the map itself, and then \<^verbatim>\<open>toString\<close> is tried. An entry of the map
  named \<^verbatim>\<open>toString\<close> is a stored value and never a function, so with such an entry
  nothing is left to call and a TypeError is raised. Without it the inherited
  \<^verbatim>\<open>toString\<close> gives \<^verbatim>\<open>"[object Object]"\<close>, which is converted as a string.
\<close>

fun Number_of :: "str2num \<Rightarrow> stored \<Rightarrow> error + jsnum" where
  "Number_of S (Prim v) = Inr (ToNumber S v)"
| "Number_of S (StoredMap kvs) =
     (if map_of kvs ''toString'' = None then Inr (S ''[object Object]'') else Inl TypeError)"

text \<open>ToBoolean and \<^verbatim>\<open>a || b\<close> on stored values: a map is truthy.\<close>

fun stored_truthy :: "stored \<Rightarrow> bool" where
  "stored_truthy (Prim v) = truthy v"
| "stored_truthy (StoredMap kvs) = True"

definition stored_or :: "stored \<Rightarrow> stored \<Rightarrow> stored" where
  "stored_or a b = (if stored_truthy a then a else b)"

text \<open>\<^verbatim>\<open>Number(v) || 0\<close> on a stored value.\<close>

definition stored_number_or_zero :: "str2num \<Rightarrow> stored \<Rightarrow> error + rat" where
  "stored_number_or_zero S v =
     (case Number_of S v of Inl e \<Rightarrow> Inl e | Inr n \<Rightarrow> Inr (num_or_zero n))"

text \<open>
  An element of the \<^verbatim>\<open>items\<close> state in general: as \<open>item\<close>, with stored values where
  the callback passes the document's values through.
\<close>

record stored_item =
  s_other :: document
  s_currentChapter :: rat
  s_totalChapters :: rat
  s_rating :: rat
  s_notes :: stored
  s_lastUpdated :: stored

definition stored_item_obj :: "stored_item \<Rightarrow> document" where
  "stored_item_obj it =
     (s_other it)
       (''currentChapter'' \<mapsto> Prim (JNum (Fin (s_currentChapter it))),
        ''totalChapters'' \<mapsto> Prim (JNum (Fin (s_totalChapters it))),
        ''rating'' \<mapsto> Prim (JNum (Fin (s_rating it))),
        ''notes'' \<mapsto> s_notes it,
        ''lastUpdated'' \<mapsto> s_lastUpdated it)"

text \<open>
  The snapshot callback (lines 528 to 541) on one document. The properties of the
  object literal are evaluated in their order; the first \<^verbatim>\<open>Number\<close> that raises ends the
  callback.
\<close>

definition snapshot_item :: "str2num \<Rightarrow> string \<Rightarrow> document \<Rightarrow> error + stored_item" where
  "snapshot_item S doc_id data =
     (case stored_number_or_zero S (doc_field data ''currentChapter'') of
        Inl e \<Rightarrow> Inl e
      | Inr c \<Rightarrow>
     (case stored_number_or_zero S (doc_field data ''totalChapters'') of
        Inl e \<Rightarrow> Inl e
      | Inr t \<Rightarrow>
     (case stored_number_or_zero S (doc_field data ''rating'') of
        Inl e \<Rightarrow> Inl e
      | Inr r \<Rightarrow>
          Inr \<lparr> s_other = [''id'' \<mapsto> Prim (JStr doc_id)] ++ data,
                s_currentChapter = c,
                s_totalChapters = t,
                s_rating = r,
                s_notes = stored_or (doc_field data ''notes'') (Prim (JStr '''')),
                s_lastUpdated = stored_or (doc_field data ''lastUpdated'') (Prim (JNum (Fin 0)))
              \<rparr>)))"

text \<open>An item of primitive values among the items in general.\<close>

definition as_stored :: "item \<Rightarrow> stored_item" where
  "as_stored it =
     \<lparr> s_other = map_option Prim \<circ> other it,
       s_currentChapter = currentChapter it,
       s_totalChapters = totalChapters it,
       s_rating = rating it,
       s_notes = Prim (item_notes it),
       s_lastUpdated = Prim (lastUpdated it) \<rparr>"

subsection \<open>The sort step of sortedAndFilteredItems (lines 679 to 700)\<close>

datatype sortField = LastUpdatedField | TitleField | RatingField

datatype sortDirection = Asc | Desc

definition field_name :: "sortField \<Rightarrow> string" where
  "field_name f =
     (case f of LastUpdatedField \<Rightarrow> ''lastUpdated'' | TitleField \<Rightarrow> ''title''
      | RatingField \<Rightarrow> ''rating'')"

text \<open>
  \<^verbatim>\<open>v.toLowerCase()\<close>: only a string has the method; calling it on another value, a map
  included, raises.
\<close>

definition call_toLowerCase :: "stored \<Rightarrow> error + string" where
  "call_toLowerCase v =
     (case v of Prim (JStr s) \<Rightarrow> Inr (toLowerCase s) | _ \<Rightarrow> Inl TypeError)"

text \<open>The last three statements of the comparator, on two strings or on two numbers.\<close>

definition compare_vals :: "sortDirection \<Rightarrow> 'k::linorder \<Rightarrow> 'k \<Rightarrow> int" where
  "compare_vals d aVal bVal =
     (if aVal < bVal then (if d = Asc then - 1 else 1)
      else if aVal > bVal then (if d = Asc then 1 else - 1)
      else 0)"

definition comparator ::
  "str2num \<Rightarrow> sortField \<Rightarrow> sortDirection \<Rightarrow> stored_item \<Rightarrow> stored_item \<Rightarrow> error + int" where
  "comparator S f d a b =
     (let aVal = doc_field (stored_item_obj a) (field_name f);
          bVal = doc_field (stored_item_obj b) (field_name f)
      in if f = TitleField
         then (case call_toLowerCase (stored_or aVal (Prim (JStr ''''))) of
                 Inl e \<Rightarrow> Inl e
               | Inr x \<Rightarrow>
                   (case call_toLowerCase (stored_or bVal (Prim (JStr ''''))) of
                      Inl e \<Rightarrow> Inl e
                    | Inr y \<Rightarrow> Inr (compare_vals d x y)))
         else (case stored_number_or_zero S aVal of
                 Inl e \<Rightarrow> Inl e
               | Inr x \<Rightarrow>
                   (case stored_number_or_zero S bVal of
                      Inl e \<Rightarrow> Inl e
                    | Inr y \<Rightarrow> Inr (compare_vals d x y))))"

text \<open>
  \<^verbatim>\<open>Array.prototype.sort\<close> with a comparator is a built-in; the language requires it to be
  stable. It is modelled as the insertion sort that puts each element before the first
  later element it does not compare greater than. An exception of the comparator ends
  the sort.
\<close>

fun insert_cmp :: "('a \<Rightarrow> 'a \<Rightarrow> error + int) \<Rightarrow> 'a \<Rightarrow> 'a list \<Rightarrow> error + 'a list" where
  "insert_cmp cmp x [] = Inr [x]"
| "insert_cmp cmp x (y # ys) =
     (case cmp x y of
        Inl e \<Rightarrow> Inl e
      | Inr c \<Rightarrow>
          if c \<le> 0 then Inr (x # y # ys)
          else (case insert_cmp cmp x ys of Inl e \<Rightarrow> Inl e | Inr zs \<Rightarrow> Inr (y # zs)))"

fun array_sort :: "('a \<Rightarrow> 'a \<Rightarrow> error + int) \<Rightarrow> 'a list \<Rightarrow> error + 'a list" where
  "array_sort cmp [] = Inr []"
| "array_sort cmp (x # xs) =
     (case array_sort cmp xs of Inl e \<Rightarrow> Inl e | Inr ys \<Rightarrow> insert_cmp cmp x ys)"

definition sort_step ::
  "str2num \<Rightarrow> sortField \<Rightarrow> sortDirection \<Rightarrow> stored_item list \<Rightarrow> error + stored_item list" where
  "sort_step S f d items = array_sort (comparator S f d) items"

section \<open>Words of the amended claims and sample data\<close>

text \<open>
  The number that a stored value counts as: the number itself; 0 for \<^verbatim>\<open>undefined\<close> (a
  missing field reads so), \<^verbatim>\<open>null\<close>, \<^verbatim>\<open>false\<close> and \<open>NaN\<close>; 1 for \<^verbatim>\<open>true\<close>; for a
  string the number it parses to, and 0 if it does not parse; for a map what the string
  \<^verbatim>\<open>"[object Object]"\<close> counts as.
\<close>

fun number_value :: "str2num \<Rightarrow> stored \<Rightarrow> rat" where
  "number_value S (Prim (JNum (Fin r))) = r"
| "number_value S (Prim (JNum NaN)) = 0"
| "number_value S (Prim JUndefined) = 0"
| "number_value S (Prim JNull) = 0"
| "number_value S (Prim (JBool b)) = (if b then 1 else 0)"
| "number_value S (Prim (JStr s)) = (case S s of NaN \<Rightarrow> 0 | Fin r \<Rightarrow> r)"
| "number_value S (StoredMap kvs) = (case S ''[object Object]'' of NaN \<Rightarrow> 0 | Fin r \<Rightarrow> r)"

text \<open>A stored map with an entry named \<^verbatim>\<open>toString\<close>: the values \<^verbatim>\<open>Number\<close> raises on.\<close>

definition has_own_toString :: "stored \<Rightarrow> bool" where
  "has_own_toString v =
     (case v of Prim p \<Rightarrow> False | StoredMap kvs \<Rightarrow> map_of kvs ''toString'' \<noteq> None)"

text \<open>
  The sort keys: the title in lower case, a missing or empty title being the empty
  string, and the number that the rating or the update time counts as.
\<close>

definition title_key :: "stored_item \<Rightarrow> string" where
  "title_key it =
     (case doc_field (stored_item_obj it) ''title'' of
        Prim (JStr s) \<Rightarrow> toLowerCase s
      | _ \<Rightarrow> [])"

definition number_key :: "str2num \<Rightarrow> sortField \<Rightarrow> stored_item \<Rightarrow> rat" where
  "number_key S f it = number_value S (doc_field (stored_item_obj it) (field_name f))"

text \<open>A title the comparator can lower-case: a string, or a falsy value.\<close>

definition text_or_falsy :: "stored \<Rightarrow> bool" where
  "text_or_falsy v = (case v of Prim (JStr s) \<Rightarrow> True | _ \<Rightarrow> \<not> stored_truthy v)"

text \<open>The order a direction asks for, and the sort it specifies on keys.\<close>

definition in_order :: "sortDirection \<Rightarrow> 'k::linorder \<Rightarrow> 'k \<Rightarrow> bool" where
  "in_order d x y = (if d = Asc then x \<le> y else y \<le> x)"

fun insert_key :: "sortDirection \<Rightarrow> ('a \<Rightarrow> 'k::linorder) \<Rightarrow> 'a \<Rightarrow> 'a list \<Rightarrow> 'a list" where
  "insert_key d key x [] = [x]"
| "insert_key d key x (y # ys) =
     (if in_order d (key x) (key y) then x # y # ys else y # insert_key d key x ys)"

definition stable_sort_key :: "sortDirection \<Rightarrow> ('a \<Rightarrow> 'k::linorder) \<Rightarrow> 'a list \<Rightarrow> 'a list" where
  "stable_sort_key d key xs = foldr (insert_key d key) xs []"

text \<open>A catalog identifier is a number or a string.\<close>

definition has_identifier :: "jsval \<Rightarrow> bool" where
  "has_identifier v = (case v of JNum (Fin n) \<Rightarrow> True | JStr s \<Rightarrow> True | _ \<Rightarrow> False)"

text \<open>
  An item of the list, a search result, and items that differ in title, rating and
  update time.
\<close>

definition sample_item :: item where
  "sample_item = \<lparr> other = [''id'' \<mapsto> JStr ''doc1'', ''title'' \<mapsto> JStr ''Berserk'',
                             ''status'' \<mapsto> READING, ''imageUrl'' \<mapsto> JStr ''b.jpg''],
                    currentChapter = 9, totalChapters = 10, rating = 0,
                    item_notes = JStr '''', lastUpdated = JNum (Fin 0) \<rparr>"

definition sample_result :: apiResult where
  "sample_result = \<lparr> mal_id = JNum (Fin 7), title = JStr ''X'', media_type = JStr ''Manga'',
                      chapters = JNum (Fin 10), image_url = JUndefined \<rparr>"

definition titled :: "string \<Rightarrow> stored \<Rightarrow> rat \<Rightarrow> stored \<Rightarrow> stored_item" where
  "titled doc_id t r u =
     \<lparr> s_other = [''id'' \<mapsto> Prim (JStr doc_id), ''title'' \<mapsto> t], s_currentChapter = 0,
       s_totalChapters = 0, s_rating = r, s_notes = Prim (JStr ''''), s_lastUpdated = u \<rparr>"

section \<open>Basic facts\<close>

lemma get_prop_empty [simp]: "get_prop Map.empty k = JUndefined"
  by (simp add: get_prop_def)

lemma get_prop_upd [simp]: "get_prop (m(k \<mapsto> v)) k' = (if k' = k then v else get_prop m k')"
  by (simp add: get_prop_def)

lemma get_prop_add [simp]:
  "get_prop (m ++ n) k = (case n k of None \<Rightarrow> get_prop m k | Some v \<Rightarrow> v)"
  by (simp add: get_prop_def map_add_def split: option.split)

lemma get_prop_absent: "m k = None \<Longrightarrow> get_prop m k = JUndefined"
  by (simp add: get_prop_def)

lemma num_or_zero_simps [simp]: "num_or_zero NaN = 0" "num_or_zero (Fin r) = r"
  by (simp_all add: num_or_zero_def js_or_def)

lemma number_or_zero_num [simp]: "number_or_zero S (JNum n) = num_or_zero n"
  by (simp add: number_or_zero_def)

lemma number_or_zero_undefined [simp]: "number_or_zero S JUndefined = 0"
  by (simp add: number_or_zero_def)

lemma number_or_zero_NaN: "ToNumber S v = NaN \<Longrightarrow> number_or_zero S v = 0"
  by (simp add: number_or_zero_def)

lemma strict_eq_str [simp]: "strict_eq v (JStr s) = (v = JStr s)"
  by (auto simp: strict_eq_def)

lemma item_obj_status [simp]: "get_prop (item_obj it) ''status'' = get_prop (other it) ''status''"
  by (simp add: item_obj_def)

lemma length_trim_le: "length (trim s) \<le> length s"
proof -
  have "length (trim s) \<le> length (dropWhile isWhiteSpace s)"
    unfolding trim_def by (simp add: length_dropWhile_le le_trans[OF length_dropWhile_le])
  also have "\<dots> \<le> length s" by (rule length_dropWhile_le)
  finally show ?thesis .
qed

subsection \<open>What each handler stores\<close>

lemma advance_currentChapter:
  "get_prop (advance it delta now) ''currentChapter'' =
     JNum (Fin (max 0 (currentChapter it + delta)))"
  by (simp add: advance_def Let_def)

lemma advance_status:
  "get_prop (advance it delta now) ''status'' =
     advance_status_spec (get_prop (other it) ''status'') (totalChapters it)
       (max 0 (currentChapter it + delta))"
  by (simp add: advance_def advance_status_spec_def Let_def
        READING_def PLAN_TO_READ_def COMPLETED_def)

lemma advance_status_dropped:
  "advance_status_spec DROPPED t n = (if t > 0 \<and> n \<ge> t then COMPLETED else DROPPED)"
  by (simp add: advance_status_spec_def READING_def PLAN_TO_READ_def COMPLETED_def DROPPED_def)

lemma applyEdit_status:
  "get_prop (applyEdit S orig form now) ''status'' =
     applyEdit_status_spec (get_prop form ''status'')
       (number_or_zero S (get_prop form ''currentChapter''))
       (number_or_zero S (get_prop form ''totalChapters''))"
  by (simp add: applyEdit_def applyEdit_status_spec_def Let_def PLAN_TO_READ_def)

lemma applyEdit_currentChapter:
  "get_prop (applyEdit S orig form now) ''currentChapter'' =
     JNum (Fin (number_or_zero S (get_prop form ''currentChapter'')))"
  by (simp add: applyEdit_def Let_def)

lemma applyEdit_rating:
  "get_prop (applyEdit S orig form now) ''rating'' =
     JNum (Fin (number_or_zero S (get_prop form ''rating'')))"
  by (simp add: applyEdit_def Let_def)

lemma normalize_currentChapter:
  "currentChapter (normalize_doc S doc_id data) = number_or_zero S (get_prop data ''currentChapter'')"
  by (simp add: normalize_doc_def)

subsection \<open>Stored values\<close>

lemma doc_field_empty [simp]: "doc_field Map.empty k = Prim JUndefined"
  by (simp add: doc_field_def)

lemma doc_field_upd [simp]:
  "doc_field (m(k \<mapsto> v)) k' = (if k' = k then v else doc_field m k')"
  by (simp add: doc_field_def)

lemma doc_field_add [simp]:
  "doc_field (m ++ n) k = (case n k of None \<Rightarrow> doc_field m k | Some v \<Rightarrow> v)"
  by (simp add: doc_field_def map_add_def split: option.split)

lemma doc_field_absent: "m k = None \<Longrightarrow> doc_field m k = Prim JUndefined"
  by (simp add: doc_field_def)

lemma number_value_prim: "number_value S (Prim p) = num_or_zero (ToNumber S p)"
proof (cases p)
  case (JNum n)
  then show ?thesis by (cases n) simp_all
next
  case (JStr s)
  then show ?thesis by (cases "S s") simp_all
qed simp_all

lemma stored_number_or_zero_ok:
  "\<not> has_own_toString v \<Longrightarrow> stored_number_or_zero S v = Inr (number_value S v)"
proof (cases v)
  case (Prim p)
  then show ?thesis by (simp add: stored_number_or_zero_def number_value_prim)
next
  case (StoredMap kvs)
  assume "\<not> has_own_toString v"
  with StoredMap show ?thesis
    by (cases "S ''[object Object]''") (simp_all add: stored_number_or_zero_def has_own_toString_def)
qed

lemma stored_number_or_zero_raises:
  "has_own_toString v \<Longrightarrow> stored_number_or_zero S v = Inl TypeError"
  by (cases v) (simp_all add: stored_number_or_zero_def has_own_toString_def)

lemma snapshot_item_raises:
  "(snapshot_item S doc_id data = Inl TypeError) =
     (has_own_toString (doc_field data ''currentChapter'')
      \<or> has_own_toString (doc_field data ''totalChapters'')
      \<or> has_own_toString (doc_field data ''rating''))"
proof (cases "has_own_toString (doc_field data ''currentChapter'')")
  case True
  then show ?thesis by (simp add: snapshot_item_def stored_number_or_zero_raises)
next
  case c: False
  show ?thesis
  proof (cases "has_own_toString (doc_field data ''totalChapters'')")
    case True
    with c show ?thesis
      by (simp add: snapshot_item_def stored_number_or_zero_raises stored_number_or_zero_ok)
  next
    case t: False
    show ?thesis
    proof (cases "has_own_toString (doc_field data ''rating'')")
      case True
      with c t show ?thesis
        by (simp add: snapshot_item_def stored_number_or_zero_raises stored_number_or_zero_ok)
    next
      case False
      with c t show ?thesis
        by (simp add: snapshot_item_def stored_number_or_zero_ok)
    qed
  qed
qed

lemma snapshot_item_ok:
  "\<not> has_own_toString (doc_field data ''currentChapter'') \<Longrightarrow>
   \<not> has_own_toString (doc_field data ''totalChapters'') \<Longrightarrow>
   \<not> has_own_toString (doc_field data ''rating'') \<Longrightarrow>
   snapshot_item S doc_id data =
     Inr \<lparr> s_other = [''id'' \<mapsto> Prim (JStr doc_id)] ++ data,
           s_currentChapter = number_value S (doc_field data ''currentChapter''),
           s_totalChapters = number_value S (doc_field data ''totalChapters''),
           s_rating = number_value S (doc_field data ''rating''),
           s_notes = stored_or (doc_field data ''notes'') (Prim (JStr '''')),
           s_lastUpdated = stored_or (doc_field data ''lastUpdated'') (Prim (JNum (Fin 0))) \<rparr>"
  by (simp add: snapshot_item_def stored_number_or_zero_ok)

text \<open>On a document of primitive values the callback builds \<open>normalize_doc\<close>.\<close>

lemma snapshot_item_prim:
  "snapshot_item S doc_id (map_option Prim \<circ> data) = Inr (as_stored (normalize_doc S doc_id data))"
proof -
  have f: "\<And>k. doc_field (map_option Prim \<circ> data) k = Prim (get_prop data k)"
    by (simp add: doc_field_def get_prop_def split: option.split)
  have o: "[''id'' \<mapsto> Prim (JStr doc_id)] ++ (map_option Prim \<circ> data)
         = map_option Prim \<circ> ([''id'' \<mapsto> JStr doc_id] ++ data)"
    by (rule ext) (simp add: map_add_def split: option.split)
  show ?thesis
    by (simp add: snapshot_item_def stored_number_or_zero_def f o as_stored_def normalize_doc_def
          number_or_zero_def stored_or_def js_or_def)
qed

lemma strict_eq_identifier: "has_identifier b \<Longrightarrow> strict_eq a b = (a = b)"
  by (cases b) (auto simp: has_identifier_def strict_eq_def split: jsnum.splits)

lemma isAlreadyTracked_identifier:
  "has_identifier (mal_id r) \<Longrightarrow>
   isAlreadyTracked items r = (\<exists>it \<in> set items. get_prop (item_obj it) ''apiId'' = mal_id r)"
  by (simp add: isAlreadyTracked_def list_ex_iff strict_eq_identifier)

subsection \<open>The insertion sort is the stable sort on keys\<close>

lemma compare_vals_le0: "(compare_vals d x y \<le> 0) = in_order d x y"
  by (auto simp: compare_vals_def in_order_def)

lemma compare_vals_desc: "compare_vals Desc x y = - compare_vals Asc x y"
  by (simp add: compare_vals_def)

lemma in_order_total: "in_order d x y \<or> in_order d y x"
  by (auto simp: in_order_def)

lemma in_order_trans: "in_order d x y \<Longrightarrow> in_order d y z \<Longrightarrow> in_order d x z"
  by (auto simp: in_order_def)

lemma not_in_order_neq: "\<not> in_order d x y \<Longrightarrow> y \<noteq> x"
  by (auto simp: in_order_def)

lemma insert_cmp_eq:
  "\<forall>y \<in> set ys. cmp x y = Inr (compare_vals d (key x) (key y)) \<Longrightarrow>
   insert_cmp cmp x ys = Inr (insert_key d key x ys)"
  by (induction ys) (simp_all add: compare_vals_le0)

lemma set_insert_key: "set (insert_key d key x ys) = insert x (set ys)"
  by (induction ys) auto

lemma set_stable_sort_key: "set (stable_sort_key d key xs) = set xs"
  by (induction xs) (simp_all add: stable_sort_key_def set_insert_key)

lemma stable_sort_key_Cons:
  "stable_sort_key d key (x # xs) = insert_key d key x (stable_sort_key d key xs)"
  by (simp add: stable_sort_key_def)

lemma array_sort_eq:
  "\<forall>a \<in> set xs. \<forall>b \<in> set xs. cmp a b = Inr (compare_vals d (key a) (key b)) \<Longrightarrow>
   array_sort cmp xs = Inr (stable_sort_key d key xs)"
proof (induction xs)
  case Nil
  show ?case by (simp add: stable_sort_key_def)
next
  case (Cons x xs)
  have rest: "array_sort cmp xs = Inr (stable_sort_key d key xs)"
    using Cons by simp
  have "\<forall>y \<in> set (stable_sort_key d key xs). cmp x y = Inr (compare_vals d (key x) (key y))"
    using Cons.prems by (simp add: set_stable_sort_key)
  then have "insert_cmp cmp x (stable_sort_key d key xs)
      = Inr (insert_key d key x (stable_sort_key d key xs))"
    by (rule insert_cmp_eq)
  with rest show ?case by (simp add: stable_sort_key_Cons)
qed

lemma mset_insert_key: "mset (insert_key d key x ys) = add_mset x (mset ys)"
  by (induction ys) auto

lemma mset_stable_sort_key: "mset (stable_sort_key d key xs) = mset xs"
  by (induction xs) (simp_all add: stable_sort_key_def mset_insert_key)

lemma sorted_insert_key:
  "sorted_wrt (\<lambda>a b. in_order d (key a) (key b)) ys \<Longrightarrow>
   sorted_wrt (\<lambda>a b. in_order d (key a) (key b)) (insert_key d key x ys)"
proof (induction ys)
  case Nil
  show ?case by simp
next
  case (Cons y ys)
  show ?case
  proof (cases "in_order d (key x) (key y)")
    case True
    then have "\<forall>z \<in> set ys. in_order d (key x) (key z)"
      using Cons.prems by (auto intro: in_order_trans)
    with True Cons.prems show ?thesis by simp
  next
    case False
    then have "in_order d (key y) (key x)"
      using in_order_total [of d "key x" "key y"] by simp
    with False Cons show ?thesis by (auto simp: set_insert_key)
  qed
qed

lemma sorted_stable_sort_key:
  "sorted_wrt (\<lambda>a b. in_order d (key a) (key b)) (stable_sort_key d key xs)"
  by (induction xs) (simp_all add: stable_sort_key_def sorted_insert_key)

lemma filter_insert_key:
  "filter (\<lambda>i. key i = k) (insert_key d key x ys) =
     (if key x = k then x # filter (\<lambda>i. key i = k) ys else filter (\<lambda>i. key i = k) ys)"
  by (induction ys) (auto dest: not_in_order_neq)

lemma filter_stable_sort_key:
  "filter (\<lambda>i. key i = k) (stable_sort_key d key xs) = filter (\<lambda>i. key i = k) xs"
  by (induction xs) (simp_all add: stable_sort_key_def filter_insert_key)


lemma call_toLowerCase_title:
  "text_or_falsy v \<Longrightarrow>
   call_toLowerCase (stored_or v (Prim (JStr ''''))) =
     Inr (case v of Prim (JStr s) \<Rightarrow> toLowerCase s | _ \<Rightarrow> [])"
proof (cases v)
  case (Prim p)
  assume "text_or_falsy v"
  with Prim show ?thesis
    by (cases p)
       (auto simp: text_or_falsy_def stored_or_def call_toLowerCase_def toLowerCase_def)
next
  case (StoredMap kvs)
  assume "text_or_falsy v"
  with StoredMap show ?thesis by (simp add: text_or_falsy_def)
qed

lemma comparator_title:
  "text_or_falsy (doc_field (stored_item_obj a) ''title'') \<Longrightarrow>
   text_or_falsy (doc_field (stored_item_obj b) ''title'') \<Longrightarrow>
   comparator S TitleField d a b = Inr (compare_vals d (title_key a) (title_key b))"
  by (simp add: comparator_def field_name_def call_toLowerCase_title title_key_def)

lemma comparator_number:
  "f \<noteq> TitleField \<Longrightarrow>
   \<not> has_own_toString (doc_field (stored_item_obj a) (field_name f)) \<Longrightarrow>
   \<not> has_own_toString (doc_field (stored_item_obj b) (field_name f)) \<Longrightarrow>
   comparator S f d a b = Inr (compare_vals d (number_key S f a) (number_key S f b))"
  by (simp add: comparator_def number_key_def stored_number_or_zero_ok)

lemma rating_field_converts:
  "\<not> has_own_toString (doc_field (stored_item_obj it) (field_name RatingField))"
  by (simp add: field_name_def stored_item_obj_def has_own_toString_def)

lemma lastUpdated_field:
  "doc_field (stored_item_obj it) (field_name LastUpdatedField) = s_lastUpdated it"
  by (simp add: field_name_def stored_item_obj_def)

lemma comparator_desc:
  "comparator S f Desc a b =
     (case comparator S f Asc a b of Inl e \<Rightarrow> Inl e | Inr c \<Rightarrow> Inr (- c))"
proof (cases "f = TitleField")
  case True
  show ?thesis
    unfolding comparator_def Let_def
    by (cases "call_toLowerCase
                 (stored_or (doc_field (stored_item_obj a) (field_name f)) (Prim (JStr '''')))";
        cases "call_toLowerCase
                 (stored_or (doc_field (stored_item_obj b) (field_name f)) (Prim (JStr '''')))")
       (simp_all add: True compare_vals_desc)
next
  case False
  show ?thesis
    unfolding comparator_def Let_def
    by (cases "stored_number_or_zero S (doc_field (stored_item_obj a) (field_name f))";
        cases "stored_number_or_zero S (doc_field (stored_item_obj b) (field_name f))")
       (simp_all add: False compare_vals_desc)
qed

lemma sort_step_title:
  "\<forall>it \<in> set items. text_or_falsy (doc_field (stored_item_obj it) ''title'') \<Longrightarrow>
   sort_step S TitleField d items = Inr (stable_sort_key d title_key items)"
  unfolding sort_step_def by (rule array_sort_eq) (simp add: comparator_title)

lemma sort_step_number:
  "f \<noteq> TitleField \<Longrightarrow>
   \<forall>it \<in> set items. \<not> has_own_toString (doc_field (stored_item_obj it) (field_name f)) \<Longrightarrow>
   sort_step S f d items = Inr (stable_sort_key d (number_key S f) items)"
  unfolding sort_step_def by (rule array_sort_eq) (simp add: comparator_number)

section \<open>The chapter progress policy\<close>

text \<open>
  C1. For every item and every delta, \<^verbatim>\<open>advance\<close> stores
  \<open>newChapter = max 0 (currentChapter + delta)\<close> and the status that the five rules of
  the specification give, tried in their order, from the item's status, its
  \<^verbatim>\<open>totalChapters\<close> and \<open>newChapter\<close>.
\<close>

theorem advance_follows_priority_order:
  "get_prop (advance it delta now) ''currentChapter'' =
     JNum (Fin (max 0 (currentChapter it + delta)))
   \<and> get_prop (advance it delta now) ''status'' =
       advance_status_spec (get_prop (item_obj it) ''status'') (totalChapters it)
         (max 0 (currentChapter it + delta))"
  by (simp add: advance_currentChapter advance_status)

text \<open>The examples of the specification (section 8) for \<^verbatim>\<open>advance\<close>.\<close>

lemma advance_examples:
  "get_prop (advance (normalize_doc S doc_id
       [''status'' \<mapsto> PLAN_TO_READ, ''currentChapter'' \<mapsto> JNum (Fin 0)]) 1 now) ''status''
     = READING"
  "get_prop (advance (normalize_doc S doc_id [''currentChapter'' \<mapsto> JNum (Fin 0)]) (- 1) now)
     ''currentChapter'' = JNum (Fin 0)"
  "get_prop (advance (normalize_doc S doc_id
       [''status'' \<mapsto> READING, ''currentChapter'' \<mapsto> JNum (Fin 9),
        ''totalChapters'' \<mapsto> JNum (Fin 10)]) 1 now) ''status'' = COMPLETED"
  "get_prop (advance (normalize_doc S doc_id
       [''status'' \<mapsto> COMPLETED, ''currentChapter'' \<mapsto> JNum (Fin 10),
        ''totalChapters'' \<mapsto> JNum (Fin 10)]) (- 1) now) ''status'' = READING"
  by (simp_all add: advance_currentChapter advance_status advance_status_spec_def
        normalize_doc_def READING_def PLAN_TO_READ_def COMPLETED_def)

text \<open>
  The first rule comes before the completion rule: a new item of ten chapters that is
  advanced by ten becomes Reading, not Completed.
\<close>

lemma advance_new_item_to_total:
  "get_prop (advance (normalize_doc S doc_id (newItem sample_result now)) 10 later) ''status''
     = READING
   \<and> get_prop (advance (normalize_doc S doc_id (newItem sample_result now)) 10 later)
       ''currentChapter'' = JNum (Fin 10)"
  by (simp add: advance_currentChapter advance_status advance_status_spec_def
        normalize_doc_def newItem_def sample_result_def js_or_def)

text \<open>
  C2. For every item and every submitted form, \<^verbatim>\<open>applyEdit\<close> stores the status that the
  three rules of the specification give from the submitted status and the coerced chapter
  numbers: Plan to Read with a chapter above 0 becomes Reading, else a reached total
  gives Completed, else the submitted status is kept. A submitted Dropped or Completed
  is kept or becomes Completed, and the form
  \<^verbatim>\<open>{status: Plan to Read, currentChapter: 5, totalChapters: 0}\<close> is stored as Reading.
\<close>

theorem applyEdit_status_order:
  "get_prop (applyEdit S orig form now) ''status'' =
     applyEdit_status_spec (get_prop form ''status'')
       (number_or_zero S (get_prop form ''currentChapter''))
       (number_or_zero S (get_prop form ''totalChapters''))
   \<and> (get_prop form ''status'' \<in> {DROPPED, COMPLETED} \<longrightarrow>
        get_prop (applyEdit S orig form now) ''status'' \<in> {get_prop form ''status'', COMPLETED})
   \<and> get_prop (applyEdit S orig
         [''status'' \<mapsto> PLAN_TO_READ, ''currentChapter'' \<mapsto> JNum (Fin 5),
          ''totalChapters'' \<mapsto> JNum (Fin 0)] now) ''status'' = READING"
proof -
  have kept: "get_prop form ''status'' \<in> {DROPPED, COMPLETED} \<longrightarrow>
        get_prop (applyEdit S orig form now) ''status'' \<in> {get_prop form ''status'', COMPLETED}"
    by (auto simp: applyEdit_status applyEdit_status_spec_def
          DROPPED_def COMPLETED_def PLAN_TO_READ_def)
  have example: "get_prop (applyEdit S orig
         [''status'' \<mapsto> PLAN_TO_READ, ''currentChapter'' \<mapsto> JNum (Fin 5),
          ''totalChapters'' \<mapsto> JNum (Fin 0)] now) ''status'' = READING"
    by (simp add: applyEdit_status applyEdit_status_spec_def)
  from applyEdit_status kept example show ?thesis by blast
qed

theorem applyEdit_status_order_witness:
  "get_prop ((item_obj sample_item)(''status'' \<mapsto> DROPPED, ''currentChapter'' \<mapsto> JStr ''12'')) ''status''
      \<in> {DROPPED, COMPLETED}
   \<and> get_prop (applyEdit decimal_digits sample_item
         ((item_obj sample_item)(''status'' \<mapsto> DROPPED, ''currentChapter'' \<mapsto> JStr ''12'')) 1000) ''status''
       = COMPLETED"
  using applyEdit_status_order [of decimal_digits sample_item
     "(item_obj sample_item)(''status'' \<mapsto> DROPPED, ''currentChapter'' \<mapsto> JStr ''12'')" 1000]
  by (simp add: applyEdit_status_spec_def sample_item_def item_obj_def number_or_zero_def
        decimal_digits_def trim_def isWhiteSpace_def unsigned_digits_def digit_val_def
        DROPPED_def COMPLETED_def PLAN_TO_READ_def)

text \<open>
  C3. A Dropped item that gets a positive delta is never moved to Reading; on
  \<^verbatim>\<open>{status: Dropped, currentChapter: 0}\<close> a delta of 1 gives chapter 1, still Dropped.
\<close>

theorem advance_dropped_not_reading:
  "(get_prop (item_obj it) ''status'' = DROPPED \<and> 0 < delta
      \<longrightarrow> get_prop (advance it delta now) ''status'' \<noteq> READING)
   \<and> get_prop (advance (normalize_doc S doc_id
              [''status'' \<mapsto> DROPPED, ''currentChapter'' \<mapsto> JNum (Fin 0)]) 1 now)
         ''currentChapter'' = JNum (Fin 1)
   \<and> get_prop (advance (normalize_doc S doc_id
              [''status'' \<mapsto> DROPPED, ''currentChapter'' \<mapsto> JNum (Fin 0)]) 1 now)
         ''status'' = DROPPED"
proof -
  have dropped_kept: "get_prop (item_obj it) ''status'' = DROPPED \<and> 0 < delta
      \<longrightarrow> get_prop (advance it delta now) ''status'' \<noteq> READING"
    by (simp add: advance_status advance_status_dropped)
       (simp add: READING_def COMPLETED_def DROPPED_def)
  have example_chapter: "get_prop (advance (normalize_doc S doc_id
              [''status'' \<mapsto> DROPPED, ''currentChapter'' \<mapsto> JNum (Fin 0)]) 1 now)
         ''currentChapter'' = JNum (Fin 1)"
    by (simp add: advance_currentChapter normalize_doc_def)
  have example_status: "get_prop (advance (normalize_doc S doc_id
              [''status'' \<mapsto> DROPPED, ''currentChapter'' \<mapsto> JNum (Fin 0)]) 1 now)
         ''status'' = DROPPED"
    by (simp add: advance_status advance_status_dropped normalize_doc_def)
  from dropped_kept example_chapter example_status show ?thesis by blast
qed

theorem advance_dropped_not_reading_witness:
  "get_prop (item_obj (normalize_doc decimal_digits ''doc1''
           [''status'' \<mapsto> DROPPED, ''currentChapter'' \<mapsto> JNum (Fin 4),
            ''totalChapters'' \<mapsto> JStr ''12''])) ''status'' = DROPPED
   \<and> (0::rat) < 1
   \<and> get_prop (advance (normalize_doc decimal_digits ''doc1''
           [''status'' \<mapsto> DROPPED, ''currentChapter'' \<mapsto> JNum (Fin 4),
            ''totalChapters'' \<mapsto> JStr ''12'']) 1 1000) ''status'' \<noteq> READING"
  using advance_dropped_not_reading
    [of "normalize_doc decimal_digits ''doc1''
           [''status'' \<mapsto> DROPPED, ''currentChapter'' \<mapsto> JNum (Fin 4),
            ''totalChapters'' \<mapsto> JStr ''12'']" 1 1000]
  by (simp add: normalize_doc_def)

text \<open>
  C4. The completion rule does not look at the current status: a Dropped item with
  \<open>totalChapters > 0\<close> whose new chapter reaches \<open>totalChapters\<close> becomes Completed.
\<close>

theorem advance_dropped_completes:
  "get_prop (item_obj it) ''status'' = DROPPED \<Longrightarrow> totalChapters it > 0 \<Longrightarrow>
   max 0 (currentChapter it + delta) \<ge> totalChapters it \<Longrightarrow>
   get_prop (advance it delta now) ''status'' = COMPLETED"
  by (simp only: advance_status item_obj_status advance_status_dropped) simp

theorem advance_dropped_completes_witness:
  "get_prop (item_obj \<lparr> other = [''id'' \<mapsto> JStr ''doc1'', ''status'' \<mapsto> DROPPED],
                    currentChapter = 9, totalChapters = 10, rating = 0,
                    item_notes = JStr '''', lastUpdated = JNum (Fin 0) \<rparr>) ''status'' = DROPPED
   \<and> (0::rat) < 10 \<and> (10::rat) \<le> max 0 (9 + 1)
   \<and> get_prop (advance \<lparr> other = [''id'' \<mapsto> JStr ''doc1'', ''status'' \<mapsto> DROPPED],
                    currentChapter = 9, totalChapters = 10, rating = 0,
                    item_notes = JStr '''', lastUpdated = JNum (Fin 0) \<rparr> 1 1000) ''status''
       = COMPLETED"
  using advance_dropped_completes
    [of "\<lparr> other = [''id'' \<mapsto> JStr ''doc1'', ''status'' \<mapsto> DROPPED],
           currentChapter = 9, totalChapters = 10, rating = 0,
           item_notes = JStr '''', lastUpdated = JNum (Fin 0) \<rparr>" 1 1000]
  by simp

section \<open>Invariants of the stored numbers\<close>

text \<open>
  C5, as amended. \<^verbatim>\<open>advance\<close> stores a chapter that is at least 0, for every delta. The
  snapshot callback and \<^verbatim>\<open>applyEdit\<close> store \<^verbatim>\<open>Number(v) || 0\<close> of the raw or submitted
  value without a floor, so their chapter is at least 0 exactly when that number is.
\<close>

theorem currentChapter_nonnegative_amended:
  "(\<exists>c. get_prop (advance it delta now) ''currentChapter'' = JNum (Fin c) \<and> 0 \<le> c)
   \<and> currentChapter (normalize_doc S doc_id data) =
       number_or_zero S (get_prop data ''currentChapter'')
   \<and> get_prop (applyEdit S orig form now) ''currentChapter'' =
       JNum (Fin (number_or_zero S (get_prop form ''currentChapter'')))"
  by (simp add: advance_currentChapter normalize_currentChapter applyEdit_currentChapter)

text \<open>
  The claim as stated fails: a stored chapter of \<open>-5\<close> is normalised to \<open>-5\<close>, and a
  submitted chapter of \<open>-3\<close> is saved as \<open>-3\<close>.
\<close>

theorem currentChapter_negative_counterexample:
  "currentChapter (normalize_doc decimal_digits ''doc1''
       [''title'' \<mapsto> JStr ''Berserk'', ''currentChapter'' \<mapsto> JNum (Fin (- 5))]) = - 5
   \<and> get_prop (applyEdit decimal_digits sample_item
         ((item_obj sample_item)(''currentChapter'' \<mapsto> JStr ''-3'')) 1000) ''currentChapter''
       = JNum (Fin (- 3))"
  by (simp add: normalize_doc_def applyEdit_currentChapter number_or_zero_def
        decimal_digits_def trim_def isWhiteSpace_def unsigned_digits_def digit_val_def)

text \<open>
  C6, as amended. A new item has rating 0. The snapshot callback and \<^verbatim>\<open>applyEdit\<close> store
  \<^verbatim>\<open>Number(v) || 0\<close> of the raw or submitted rating without a bound, so their rating is
  within 0 and 10 exactly when that number is.
\<close>

theorem rating_range_amended:
  "get_prop (newItem r now) ''rating'' = JNum (Fin 0)
   \<and> rating (normalize_doc S doc_id data) = number_or_zero S (get_prop data ''rating'')
   \<and> get_prop (applyEdit S orig form now) ''rating'' =
       JNum (Fin (number_or_zero S (get_prop form ''rating'')))"
  by (simp add: newItem_def normalize_doc_def applyEdit_rating)

text \<open>
  The claim as stated fails: a submitted rating of 11 is saved as 11, and a stored rating
  of 11 is normalised to 11.
\<close>

theorem rating_above_ten_counterexample:
  "get_prop (applyEdit decimal_digits sample_item
       ((item_obj sample_item)(''rating'' \<mapsto> JNum (Fin 11))) 1000) ''rating'' = JNum (Fin 11)
   \<and> rating (normalize_doc decimal_digits ''doc1''
       [''title'' \<mapsto> JStr ''Berserk'', ''rating'' \<mapsto> JNum (Fin 11)]) = 11"
  by (simp add: normalize_doc_def applyEdit_rating)

section \<open>The item normaliser\<close>

text \<open>
  C7, as amended. For every raw stored record the normaliser raises a TypeError exactly
  when \<^verbatim>\<open>Number\<close> raises on the raw \<^verbatim>\<open>currentChapter\<close>, \<^verbatim>\<open>totalChapters\<close> or \<^verbatim>\<open>rating\<close>,
  which it does on a stored map with an entry named \<^verbatim>\<open>toString\<close>. Otherwise it succeeds,
  and in the item each of these three fields is the number that the raw value counts as:
  0 when the field is missing and when \<^verbatim>\<open>Number\<close> of it is \<open>NaN\<close>, and the number
  otherwise, so that \<^verbatim>\<open>true\<close> gives 1. \<^verbatim>\<open>lastUpdated\<close> is 0 when the raw field is missing or
  falsy and is the raw value itself otherwise, with no numeric coercion; \<^verbatim>\<open>notes\<close> is
  the empty string when the raw field is missing or falsy; every other field of the
  record passes through unchanged.
\<close>

theorem snapshot_item_amended:
  "(snapshot_item S doc_id data = Inl TypeError) =
      (has_own_toString (doc_field data ''currentChapter'')
       \<or> has_own_toString (doc_field data ''totalChapters'')
       \<or> has_own_toString (doc_field data ''rating''))
   \<and> (\<not> has_own_toString (doc_field data ''currentChapter'')
       \<and> \<not> has_own_toString (doc_field data ''totalChapters'')
       \<and> \<not> has_own_toString (doc_field data ''rating'') \<longrightarrow>
        (\<exists>it. snapshot_item S doc_id data = Inr it
           \<and> s_currentChapter it = number_value S (doc_field data ''currentChapter'')
           \<and> s_totalChapters it = number_value S (doc_field data ''totalChapters'')
           \<and> s_rating it = number_value S (doc_field data ''rating'')
           \<and> (data ''currentChapter'' = None \<longrightarrow> s_currentChapter it = 0)
           \<and> (data ''totalChapters'' = None \<longrightarrow> s_totalChapters it = 0)
           \<and> (data ''rating'' = None \<longrightarrow> s_rating it = 0)
           \<and> s_lastUpdated it =
               (if stored_truthy (doc_field data ''lastUpdated'') then doc_field data ''lastUpdated''
                else Prim (JNum (Fin 0)))
           \<and> (data ''lastUpdated'' = None \<longrightarrow> s_lastUpdated it = Prim (JNum (Fin 0)))
           \<and> s_notes it =
               (if stored_truthy (doc_field data ''notes'') then doc_field data ''notes''
                else Prim (JStr ''''))
           \<and> (data ''notes'' = None \<longrightarrow> s_notes it = Prim (JStr ''''))
           \<and> (k \<notin> {''currentChapter'', ''totalChapters'', ''rating'', ''notes'', ''lastUpdated''}
                \<and> data k = Some v \<longrightarrow> stored_item_obj it k = Some v)))"
proof (rule conjI)
  show "(snapshot_item S doc_id data = Inl TypeError) =
      (has_own_toString (doc_field data ''currentChapter'')
       \<or> has_own_toString (doc_field data ''totalChapters'')
       \<or> has_own_toString (doc_field data ''rating''))"
    by (rule snapshot_item_raises)
next
  show "\<not> has_own_toString (doc_field data ''currentChapter'')
       \<and> \<not> has_own_toString (doc_field data ''totalChapters'')
       \<and> \<not> has_own_toString (doc_field data ''rating'') \<longrightarrow>
        (\<exists>it. snapshot_item S doc_id data = Inr it
           \<and> s_currentChapter it = number_value S (doc_field data ''currentChapter'')
           \<and> s_totalChapters it = number_value S (doc_field data ''totalChapters'')
           \<and> s_rating it = number_value S (doc_field data ''rating'')
           \<and> (data ''currentChapter'' = None \<longrightarrow> s_currentChapter it = 0)
           \<and> (data ''totalChapters'' = None \<longrightarrow> s_totalChapters it = 0)
           \<and> (data ''rating'' = None \<longrightarrow> s_rating it = 0)
           \<and> s_lastUpdated it =
               (if stored_truthy (doc_field data ''lastUpdated'') then doc_field data ''lastUpdated''
                else Prim (JNum (Fin 0)))
           \<and> (data ''lastUpdated'' = None \<longrightarrow> s_lastUpdated it = Prim (JNum (Fin 0)))
           \<and> s_notes it =
               (if stored_truthy (doc_field data ''notes'') then doc_field data ''notes''
                else Prim (JStr ''''))
           \<and> (data ''notes'' = None \<longrightarrow> s_notes it = Prim (JStr ''''))
           \<and> (k \<notin> {''currentChapter'', ''totalChapters'', ''rating'', ''notes'', ''lastUpdated''}
                \<and> data k = Some v \<longrightarrow> stored_item_obj it k = Some v))"
  proof (intro impI, elim conjE)
    assume ok: "\<not> has_own_toString (doc_field data ''currentChapter'')"
      "\<not> has_own_toString (doc_field data ''totalChapters'')"
      "\<not> has_own_toString (doc_field data ''rating'')"
    let ?it = "\<lparr> s_other = [''id'' \<mapsto> Prim (JStr doc_id)] ++ data,
           s_currentChapter = number_value S (doc_field data ''currentChapter''),
           s_totalChapters = number_value S (doc_field data ''totalChapters''),
           s_rating = number_value S (doc_field data ''rating''),
           s_notes = stored_or (doc_field data ''notes'') (Prim (JStr '''')),
           s_lastUpdated = stored_or (doc_field data ''lastUpdated'') (Prim (JNum (Fin 0))) \<rparr>"
    have built: "snapshot_item S doc_id data = Inr ?it"
      using ok by (rule snapshot_item_ok)
    have missing: "\<And>key. data key = None \<longrightarrow> number_value S (doc_field data key) = 0"
      by (simp add: doc_field_absent)
    have passed: "k \<notin> {''currentChapter'', ''totalChapters'', ''rating'', ''notes'', ''lastUpdated''}
                \<and> data k = Some v \<longrightarrow> stored_item_obj ?it k = Some v"
      by (simp add: stored_item_obj_def)
    show "\<exists>it. snapshot_item S doc_id data = Inr it
           \<and> s_currentChapter it = number_value S (doc_field data ''currentChapter'')
           \<and> s_totalChapters it = number_value S (doc_field data ''totalChapters'')
           \<and> s_rating it = number_value S (doc_field data ''rating'')
           \<and> (data ''currentChapter'' = None \<longrightarrow> s_currentChapter it = 0)
           \<and> (data ''totalChapters'' = None \<longrightarrow> s_totalChapters it = 0)
           \<and> (data ''rating'' = None \<longrightarrow> s_rating it = 0)
           \<and> s_lastUpdated it =
               (if stored_truthy (doc_field data ''lastUpdated'') then doc_field data ''lastUpdated''
                else Prim (JNum (Fin 0)))
           \<and> (data ''lastUpdated'' = None \<longrightarrow> s_lastUpdated it = Prim (JNum (Fin 0)))
           \<and> s_notes it =
               (if stored_truthy (doc_field data ''notes'') then doc_field data ''notes''
                else Prim (JStr ''''))
           \<and> (data ''notes'' = None \<longrightarrow> s_notes it = Prim (JStr ''''))
           \<and> (k \<notin> {''currentChapter'', ''totalChapters'', ''rating'', ''notes'', ''lastUpdated''}
                \<and> data k = Some v \<longrightarrow> stored_item_obj it k = Some v)"
      apply (rule exI [of _ ?it])
      using built missing passed
      apply (simp add: stored_or_def doc_field_absent)
      done
  qed
qed

theorem snapshot_item_amended_witness:
  "\<not> has_own_toString (doc_field
        [''title'' \<mapsto> Prim (JStr ''Berserk''), ''rating'' \<mapsto> Prim (JStr ''abc''),
         ''totalChapters'' \<mapsto> Prim (JStr ''12''),
         ''lastUpdated'' \<mapsto> StoredMap [(''seconds'', Prim (JNum (Fin 5)))]] ''currentChapter'')
   \<and> \<not> has_own_toString (doc_field
        [''title'' \<mapsto> Prim (JStr ''Berserk''), ''rating'' \<mapsto> Prim (JStr ''abc''),
         ''totalChapters'' \<mapsto> Prim (JStr ''12''),
         ''lastUpdated'' \<mapsto> StoredMap [(''seconds'', Prim (JNum (Fin 5)))]] ''totalChapters'')
   \<and> \<not> has_own_toString (doc_field
        [''title'' \<mapsto> Prim (JStr ''Berserk''), ''rating'' \<mapsto> Prim (JStr ''abc''),
         ''totalChapters'' \<mapsto> Prim (JStr ''12''),
         ''lastUpdated'' \<mapsto> StoredMap [(''seconds'', Prim (JNum (Fin 5)))]] ''rating'')
   \<and> snapshot_item decimal_digits ''doc1''
        [''title'' \<mapsto> Prim (JStr ''Berserk''), ''rating'' \<mapsto> Prim (JStr ''abc''),
         ''totalChapters'' \<mapsto> Prim (JStr ''12''),
         ''lastUpdated'' \<mapsto> StoredMap [(''seconds'', Prim (JNum (Fin 5)))]] =
       Inr \<lparr> s_other = [''id'' \<mapsto> Prim (JStr ''doc1'')] ++
                [''title'' \<mapsto> Prim (JStr ''Berserk''), ''rating'' \<mapsto> Prim (JStr ''abc''),
                 ''totalChapters'' \<mapsto> Prim (JStr ''12''),
                 ''lastUpdated'' \<mapsto> StoredMap [(''seconds'', Prim (JNum (Fin 5)))]],
             s_currentChapter = 0, s_totalChapters = 12, s_rating = 0,
             s_notes = Prim (JStr ''''),
             s_lastUpdated = StoredMap [(''seconds'', Prim (JNum (Fin 5)))] \<rparr>"
  using snapshot_item_amended [of decimal_digits "''doc1''"
        "[''title'' \<mapsto> Prim (JStr ''Berserk''), ''rating'' \<mapsto> Prim (JStr ''abc''),
         ''totalChapters'' \<mapsto> Prim (JStr ''12''),
         ''lastUpdated'' \<mapsto> StoredMap [(''seconds'', Prim (JNum (Fin 5)))]]"
        "''title''" "Prim (JStr ''Berserk'')"]
  by (simp add: has_own_toString_def snapshot_item_def stored_number_or_zero_def stored_or_def
        decimal_digits_def trim_def isWhiteSpace_def unsigned_digits_def digit_val_def)

text \<open>
  The claim as stated fails three times: the non-numeric string \<^verbatim>\<open>"abc"\<close> stays as
  \<^verbatim>\<open>lastUpdated\<close>; the rating \<^verbatim>\<open>true\<close>, which is not a number, is normalised to 1 and
  not to 0; and on a chapter that is the stored map \<^verbatim>\<open>{toString: 1}\<close> the normaliser
  raises.
\<close>

theorem snapshot_item_counterexample:
  "snapshot_item decimal_digits ''doc1'' [''lastUpdated'' \<mapsto> Prim (JStr ''abc'')] =
     Inr \<lparr> s_other = [''id'' \<mapsto> Prim (JStr ''doc1'')] ++ [''lastUpdated'' \<mapsto> Prim (JStr ''abc'')],
           s_currentChapter = 0, s_totalChapters = 0, s_rating = 0,
           s_notes = Prim (JStr ''''), s_lastUpdated = Prim (JStr ''abc'') \<rparr>
   \<and> snapshot_item decimal_digits ''doc2'' [''rating'' \<mapsto> Prim (JBool True)] =
     Inr \<lparr> s_other = [''id'' \<mapsto> Prim (JStr ''doc2'')] ++ [''rating'' \<mapsto> Prim (JBool True)],
           s_currentChapter = 0, s_totalChapters = 0, s_rating = 1,
           s_notes = Prim (JStr ''''), s_lastUpdated = Prim (JNum (Fin 0)) \<rparr>
   \<and> snapshot_item decimal_digits ''doc3''
       [''currentChapter'' \<mapsto> StoredMap [(''toString'', Prim (JNum (Fin 1)))]] = Inl TypeError"
  by (simp add: snapshot_item_def stored_number_or_zero_def stored_or_def)

section \<open>The list projection\<close>

text \<open>
  C8, as amended. Take an item collection in which every title is a string or falsy when
  the sort is by title, and in which \<^verbatim>\<open>Number\<close> raises on no update time when the sort is
  by \<^verbatim>\<open>lastUpdated\<close> (it raises on a stored map with an entry named \<^verbatim>\<open>toString\<close>). For
  every sort field and direction the sort step then returns a permutation of the
  collection that is ordered by the key of the field in the direction asked and in which
  items of equal key keep their order of the collection, in both directions; the
  descending comparator is the ascending one negated. The key is the title in lower
  case, the empty string for a missing or empty title, or the number that the rating or
  update time counts as: 0 when it is missing and when \<^verbatim>\<open>Number\<close> of it is \<open>NaN\<close>, the
  number otherwise, so that \<^verbatim>\<open>true\<close> counts as 1.
\<close>

theorem sort_step_amended:
  assumes "f = TitleField \<longrightarrow>
             (\<forall>it \<in> set items. text_or_falsy (doc_field (stored_item_obj it) ''title''))"
    and "f = LastUpdatedField \<longrightarrow> (\<forall>it \<in> set items. \<not> has_own_toString (s_lastUpdated it))"
  shows "(\<exists>ys. sort_step S f d items = Inr ys \<and> mset ys = mset items
     \<and> (f = TitleField \<longrightarrow>
          sorted_wrt (\<lambda>a b. in_order d (title_key a) (title_key b)) ys
          \<and> (\<forall>k. filter (\<lambda>it. title_key it = k) ys = filter (\<lambda>it. title_key it = k) items))
     \<and> (f \<noteq> TitleField \<longrightarrow>
          sorted_wrt (\<lambda>a b. in_order d (number_key S f a) (number_key S f b)) ys
          \<and> (\<forall>k. filter (\<lambda>it. number_key S f it = k) ys
                 = filter (\<lambda>it. number_key S f it = k) items)))
   \<and> comparator S f Desc a b =
       (case comparator S f Asc a b of Inl e \<Rightarrow> Inl e | Inr c \<Rightarrow> Inr (- c))"
proof -
  have sorted_stable: "\<exists>ys. sort_step S f d items = Inr ys \<and> mset ys = mset items
     \<and> (f = TitleField \<longrightarrow>
          sorted_wrt (\<lambda>a b. in_order d (title_key a) (title_key b)) ys
          \<and> (\<forall>k. filter (\<lambda>it. title_key it = k) ys = filter (\<lambda>it. title_key it = k) items))
     \<and> (f \<noteq> TitleField \<longrightarrow>
          sorted_wrt (\<lambda>a b. in_order d (number_key S f a) (number_key S f b)) ys
          \<and> (\<forall>k. filter (\<lambda>it. number_key S f it = k) ys
                 = filter (\<lambda>it. number_key S f it = k) items))"
  proof (cases "f = TitleField")
    case True
    with assms have "sort_step S f d items = Inr (stable_sort_key d title_key items)"
      by (simp add: sort_step_title)
    with True show ?thesis
      by (simp add: mset_stable_sort_key sorted_stable_sort_key filter_stable_sort_key)
  next
    case False
    have "\<forall>it \<in> set items. \<not> has_own_toString (doc_field (stored_item_obj it) (field_name f))"
    proof (cases f)
      case LastUpdatedField
      with assms(2) show ?thesis by (simp add: lastUpdated_field)
    next
      case TitleField
      with False show ?thesis by simp
    next
      case RatingField
      then show ?thesis by (simp add: rating_field_converts)
    qed
    with False have "sort_step S f d items = Inr (stable_sort_key d (number_key S f) items)"
      by (rule sort_step_number)
    with False show ?thesis
      by (simp add: mset_stable_sort_key sorted_stable_sort_key filter_stable_sort_key)
  qed
  from sorted_stable comparator_desc show ?thesis by (rule conjI)
qed

theorem sort_step_amended_witness:
  "text_or_falsy (doc_field (stored_item_obj
       (titled ''doc1'' (Prim (JStr ''naruto'')) 8 (Prim (JNum (Fin 30))))) ''title'')
   \<and> text_or_falsy (doc_field (stored_item_obj
       (titled ''doc2'' (Prim (JStr ''Akira'')) 9 (Prim (JBool True)))) ''title'')
   \<and> text_or_falsy (doc_field (stored_item_obj
       (titled ''doc3'' (Prim (JStr ''NARUTO'')) 7 (Prim (JStr ''abc'')))) ''title'')
   \<and> text_or_falsy (doc_field (stored_item_obj
       (titled ''doc4'' (Prim JUndefined) 9 (StoredMap [(''seconds'', Prim (JNum (Fin 5)))])))
       ''title'')
   \<and> \<not> has_own_toString (Prim (JNum (Fin 30))) \<and> \<not> has_own_toString (Prim (JBool True))
   \<and> \<not> has_own_toString (Prim (JStr ''abc''))
   \<and> \<not> has_own_toString (StoredMap [(''seconds'', Prim (JNum (Fin 5)))])
   \<and> sort_step decimal_digits TitleField Desc
        [titled ''doc1'' (Prim (JStr ''naruto'')) 8 (Prim (JNum (Fin 30))),
         titled ''doc2'' (Prim (JStr ''Akira'')) 9 (Prim (JBool True)),
         titled ''doc3'' (Prim (JStr ''NARUTO'')) 7 (Prim (JStr ''abc'')),
         titled ''doc4'' (Prim JUndefined) 9 (StoredMap [(''seconds'', Prim (JNum (Fin 5)))])]
      = Inr [titled ''doc1'' (Prim (JStr ''naruto'')) 8 (Prim (JNum (Fin 30))),
             titled ''doc3'' (Prim (JStr ''NARUTO'')) 7 (Prim (JStr ''abc'')),
             titled ''doc2'' (Prim (JStr ''Akira'')) 9 (Prim (JBool True)),
             titled ''doc4'' (Prim JUndefined) 9 (StoredMap [(''seconds'', Prim (JNum (Fin 5)))])]
   \<and> sort_step decimal_digits LastUpdatedField Asc
        [titled ''doc1'' (Prim (JStr ''naruto'')) 8 (Prim (JNum (Fin 30))),
         titled ''doc2'' (Prim (JStr ''Akira'')) 9 (Prim (JBool True)),
         titled ''doc3'' (Prim (JStr ''NARUTO'')) 7 (Prim (JStr ''abc'')),
         titled ''doc4'' (Prim JUndefined) 9 (StoredMap [(''seconds'', Prim (JNum (Fin 5)))])]
      = Inr [titled ''doc3'' (Prim (JStr ''NARUTO'')) 7 (Prim (JStr ''abc'')),
             titled ''doc4'' (Prim JUndefined) 9 (StoredMap [(''seconds'', Prim (JNum (Fin 5)))]),
             titled ''doc2'' (Prim (JStr ''Akira'')) 9 (Prim (JBool True)),
             titled ''doc1'' (Prim (JStr ''naruto'')) 8 (Prim (JNum (Fin 30)))]"
  using sort_step_amended [of TitleField
      "[titled ''doc1'' (Prim (JStr ''naruto'')) 8 (Prim (JNum (Fin 30))),
         titled ''doc2'' (Prim (JStr ''Akira'')) 9 (Prim (JBool True)),
         titled ''doc3'' (Prim (JStr ''NARUTO'')) 7 (Prim (JStr ''abc'')),
         titled ''doc4'' (Prim JUndefined) 9 (StoredMap [(''seconds'', Prim (JNum (Fin 5)))])]"
      decimal_digits Desc]
    sort_step_amended [of LastUpdatedField
      "[titled ''doc1'' (Prim (JStr ''naruto'')) 8 (Prim (JNum (Fin 30))),
         titled ''doc2'' (Prim (JStr ''Akira'')) 9 (Prim (JBool True)),
         titled ''doc3'' (Prim (JStr ''NARUTO'')) 7 (Prim (JStr ''abc'')),
         titled ''doc4'' (Prim JUndefined) 9 (StoredMap [(''seconds'', Prim (JNum (Fin 5)))])]"
      decimal_digits Asc]
  by (simp add: sort_step_def comparator_def field_name_def titled_def stored_item_obj_def
        stored_or_def call_toLowerCase_def text_or_falsy_def compare_vals_def
        has_own_toString_def stored_number_or_zero_def
        toLowerCase_def lower_char_def isUpper_def
        decimal_digits_def trim_def isWhiteSpace_def unsigned_digits_def digit_val_def)

text \<open>
  The claim as stated fails three times. A title that is neither a string nor falsy, the
  number 42, has no \<^verbatim>\<open>toLowerCase\<close>, and the comparator raises. The update time
  \<^verbatim>\<open>true\<close>, which is not a number, is not treated as 0: it sorts after one half. On an
  update time that is the stored map \<^verbatim>\<open>{toString: 1}\<close> the comparator raises.
\<close>

theorem sort_step_counterexample:
  "sort_step decimal_digits TitleField Asc
     [titled ''doc1'' (Prim (JNum (Fin 42))) 0 (Prim (JNum (Fin 0))),
      titled ''doc2'' (Prim (JStr ''Akira'')) 0 (Prim (JNum (Fin 0)))] = Inl TypeError
   \<and> sort_step decimal_digits LastUpdatedField Asc
       [titled ''doc1'' (Prim (JStr ''Akira'')) 0 (Prim (JBool True)),
        titled ''doc2'' (Prim (JStr ''Berserk'')) 0 (Prim (JNum (Fin (1 / 2))))]
     = Inr [titled ''doc2'' (Prim (JStr ''Berserk'')) 0 (Prim (JNum (Fin (1 / 2)))),
            titled ''doc1'' (Prim (JStr ''Akira'')) 0 (Prim (JBool True))]
   \<and> sort_step decimal_digits LastUpdatedField Asc
       [titled ''doc1'' (Prim (JStr ''Akira'')) 0
          (StoredMap [(''toString'', Prim (JNum (Fin 1)))]),
        titled ''doc2'' (Prim (JStr ''Berserk'')) 0 (Prim (JNum (Fin 5)))] = Inl TypeError"
  by (simp add: sort_step_def comparator_def field_name_def titled_def stored_item_obj_def
        stored_or_def call_toLowerCase_def compare_vals_def stored_number_or_zero_def)

section \<open>Adding from a search result\<close>

text \<open>
  C9, as amended. Take a search candidate that carries a catalog identifier, a number or
  a string. When a tracked item has an identifier equal to the candidate's, the add
  action creates nothing. While the database handle or the user id is not set, it
  creates nothing. Otherwise it creates exactly one record, with status Plan to Read,
  chapter 0, rating 0, empty notes and the candidate's chapter count, or 0 when that is
  absent.
\<close>

theorem handleAddItem_amended:
  assumes "has_identifier (mal_id r)"
  shows "((\<exists>it \<in> set items. get_prop (item_obj it) ''apiId'' = mal_id r) \<longrightarrow>
            handleAddItem db userId items r now = [])
   \<and> (\<not> db \<or> userId = None \<or> userId = Some [] \<longrightarrow>
            handleAddItem db userId items r now = [])
   \<and> (\<not> (\<exists>it \<in> set items. get_prop (item_obj it) ''apiId'' = mal_id r)
        \<and> db \<and> userId = Some uid \<and> uid \<noteq> [] \<longrightarrow>
        (\<exists>p. handleAddItem db userId items r now = [p]
           \<and> get_prop p ''status'' = PLAN_TO_READ
           \<and> get_prop p ''currentChapter'' = JNum (Fin 0)
           \<and> get_prop p ''rating'' = JNum (Fin 0)
           \<and> get_prop p ''notes'' = JStr ''''
           \<and> get_prop p ''totalChapters'' =
               (if chapters r \<in> {JUndefined, JNull} then JNum (Fin 0)
                else if truthy (chapters r) then chapters r else JNum (Fin 0))))"
proof -
  have tracked: "isAlreadyTracked items r =
      (\<exists>it \<in> set items. get_prop (item_obj it) ''apiId'' = mal_id r)"
    using assms by (rule isAlreadyTracked_identifier)
  have noop: "isAlreadyTracked items r \<longrightarrow> handleAddItem db userId items r now = []"
    by (simp add: handleAddItem_def)
  have guard: "\<not> db \<or> userId = None \<or> userId = Some [] \<longrightarrow>
            handleAddItem db userId items r now = []"
    by (auto simp: handleAddItem_def)
  have created: "\<not> isAlreadyTracked items r \<and> db \<and> userId = Some uid \<and> uid \<noteq> [] \<longrightarrow>
        (\<exists>p. handleAddItem db userId items r now = [p]
           \<and> get_prop p ''status'' = PLAN_TO_READ
           \<and> get_prop p ''currentChapter'' = JNum (Fin 0)
           \<and> get_prop p ''rating'' = JNum (Fin 0)
           \<and> get_prop p ''notes'' = JStr ''''
           \<and> get_prop p ''totalChapters'' =
               (if chapters r \<in> {JUndefined, JNull} then JNum (Fin 0)
                else if truthy (chapters r) then chapters r else JNum (Fin 0)))"
    by (auto simp: handleAddItem_def newItem_def js_or_def)
  from noop guard created show ?thesis
    unfolding tracked by (intro conjI)
qed

theorem handleAddItem_amended_witness:
  "has_identifier (mal_id sample_result)
   \<and> handleAddItem True (Some ''user1'') [] sample_result 1000 = [newItem sample_result 1000]
   \<and> get_prop (newItem sample_result 1000) ''status'' = PLAN_TO_READ
   \<and> get_prop (newItem sample_result 1000) ''currentChapter'' = JNum (Fin 0)
   \<and> get_prop (newItem sample_result 1000) ''totalChapters'' = JNum (Fin 10)
   \<and> get_prop (item_obj (normalize_doc decimal_digits ''doc1'' (newItem sample_result 1000)))
        ''apiId'' = mal_id sample_result
   \<and> handleAddItem True (Some ''user1'')
        [normalize_doc decimal_digits ''doc1'' (newItem sample_result 1000)] sample_result 3000 = []
   \<and> handleAddItem False (Some ''user1'') [] sample_result 1000 = []
   \<and> handleAddItem True (Some '''') [] sample_result 1000 = []"
  using handleAddItem_amended [of sample_result "[]" True "Some ''user1''" 1000 "''user1''"]
    handleAddItem_amended
      [of sample_result "[normalize_doc decimal_digits ''doc1'' (newItem sample_result 1000)]"
        True "Some ''user1''" 3000 "''user1''"]
    handleAddItem_amended [of sample_result "[]" False "Some ''user1''" 1000 "''user1''"]
    handleAddItem_amended [of sample_result "[]" True "Some ''''" 1000 "''user1''"]
  by (simp add: has_identifier_def handleAddItem_def isAlreadyTracked_def sample_result_def
        newItem_def normalize_doc_def item_obj_def strict_eq_def js_or_def PLAN_TO_READ_def)

text \<open>
  The claim as stated fails twice. While the user id is not yet set, a candidate that is
  not tracked is still not added. A candidate without an identifier is not added when a
  tracked item has none either, although no identifier is equal to another.
\<close>

theorem handleAddItem_counterexample:
  "\<not> isAlreadyTracked [] sample_result
   \<and> handleAddItem True None [] sample_result 1000 = []
   \<and> get_prop (item_obj (normalize_doc decimal_digits ''doc1'' [''title'' \<mapsto> JStr ''Berserk'']))
        ''apiId'' = JUndefined
   \<and> mal_id (sample_result \<lparr> mal_id := JUndefined \<rparr>) = JUndefined
   \<and> handleAddItem True (Some ''user1'')
        [normalize_doc decimal_digits ''doc1'' [''title'' \<mapsto> JStr ''Berserk'']]
        (sample_result \<lparr> mal_id := JUndefined \<rparr>) 1000 = []"
  by (simp add: isAlreadyTracked_def handleAddItem_def normalize_doc_def item_obj_def
        strict_eq_def sample_result_def)

section \<open>The catalog search\<close>

text \<open>
  C10, as amended. A query that has fewer than 3 characters once the white space around it
  is trimmed, and so every query of fewer than 3 characters, gets the validation message
  and no request; a query with 3 or more characters after trimming is sent.
\<close>

theorem handleSearch_amended:
  "(length (trim query) < 3 \<longrightarrow>
      handleSearch query = ValidationError ''Please enter at least 3 characters to search.'')
   \<and> (length query < 3 \<longrightarrow>
      handleSearch query = ValidationError ''Please enter at least 3 characters to search.'')
   \<and> (3 \<le> length (trim query) \<longrightarrow> handleSearch query = SearchRequest query)"
  using length_trim_le [of query] by (simp add: handleSearch_def)

theorem handleSearch_amended_witness:
  "length (trim ''  x '') < 3 \<and> length ''xy'' < 3 \<and> 3 \<le> length (trim '' one piece '')
   \<and> handleSearch ''  x '' = ValidationError ''Please enter at least 3 characters to search.''
   \<and> handleSearch ''xy'' = ValidationError ''Please enter at least 3 characters to search.''
   \<and> handleSearch '' one piece '' = SearchRequest '' one piece ''"
  using handleSearch_amended [of "''  x ''"] handleSearch_amended [of "''xy''"]
    handleSearch_amended [of "'' one piece ''"]
  by (simp add: trim_def isWhiteSpace_def)

text \<open>
  The claim as stated fails on a padded query: \<^verbatim>\<open>" ab"\<close> has 3 characters and is
  rejected.
\<close>

theorem handleSearch_padded_counterexample:
  "3 \<le> length '' ab''
   \<and> handleSearch '' ab'' = ValidationError ''Please enter at least 3 characters to search.''"
  by (simp add: handleSearch_def trim_def isWhiteSpace_def)

end

